theory Spec2Isabelle
  imports Complex_Main "HOL-Library.Char_ord" "HOL-Library.List_Lexorder"
begin

section \<open>Numbers, strings and errors\<close>

text \<open>
  The pricing engine of \<^verbatim>\<open>ml_engine.py\<close> computes on Python floats. They are
  embedded as \<^typ>\<open>real\<close>: every operation the engine performs (addition,
  multiplication, division, comparison, \<^verbatim>\<open>max\<close>, \<^verbatim>\<open>min\<close>, \<^verbatim>\<open>round\<close>) is
  taken in exact arithmetic, so rounding error of the binary representation, infinities and
  NaN are outside the model. Strings are byte lists; \<^verbatim>\<open>str.lower\<close> is modelled on the
  ASCII letters, which is all that a comparison with the ASCII keywords of the engine can
  observe.
\<close>

datatype py_error = ZeroDivisionError

definition py_div :: "real \<Rightarrow> real \<Rightarrow> py_error + real" where
  \<comment> \<open>float division: a zero divisor raises\<close>
  "py_div a b = (if b = 0 then Inl ZeroDivisionError else Inr (a / b))"

definition round_half_even :: "real \<Rightarrow> int" where
  "round_half_even y =
     (let f = \<lfloor>y\<rfloor>; d = y - of_int f
      in if d < 1 / 2 then f
         else if 1 / 2 < d then f + 1
         else if even f then f else f + 1)"

definition py_round :: "real \<Rightarrow> nat \<Rightarrow> real" where
  \<comment> \<open>\<^verbatim>\<open>round(x, ndigits)\<close>: to the nearest multiple of \<open>10 ^ -ndigits\<close>, ties to even\<close>
  "py_round x ndigits = of_int (round_half_even (x * 10 ^ ndigits)) / 10 ^ ndigits"

definition lower_char :: "char \<Rightarrow> char" where
  "lower_char c =
     (let n = (of_char c :: nat)
      in if 65 \<le> n \<and> n \<le> 90 then char_of (n + 32) else c)"

definition lower :: "string \<Rightarrow> string" where
  "lower s = map lower_char s"

section \<open>Tier and rule configuration\<close>

record TierConfig =
  name :: string
  min_margin_pct :: real
  change_cap_pct :: real

definition TIER_LOW :: TierConfig where
  "TIER_LOW = \<lparr>name = ''low'', min_margin_pct = 0.10, change_cap_pct = 0.10\<rparr>"

definition TIER_MID :: TierConfig where
  "TIER_MID = \<lparr>name = ''mid'', min_margin_pct = 0.15, change_cap_pct = 0.05\<rparr>"

definition TIER_HIGH :: TierConfig where
  "TIER_HIGH = \<lparr>name = ''high'', min_margin_pct = 0.20, change_cap_pct = 0.07\<rparr>"

definition TIER_PREMIUM :: TierConfig where
  "TIER_PREMIUM = \<lparr>name = ''premium'', min_margin_pct = 0.25, change_cap_pct = 0.05\<rparr>"

definition TIER_CONFIGS :: "string \<rightharpoonup> TierConfig" where
  "TIER_CONFIGS = map_of
     [(''low'', TIER_LOW), (''mid'', TIER_MID), (''high'', TIER_HIGH),
      (''premium'', TIER_PREMIUM)]"

definition tier_config_get :: "string \<Rightarrow> TierConfig" where
  \<comment> \<open>\<^verbatim>\<open>TIER_CONFIGS.get(tier.lower(), TIER_CONFIGS["mid"])\<close>\<close>
  "tier_config_get tier' =
     (case TIER_CONFIGS (lower tier') of Some c \<Rightarrow> c | None \<Rightarrow> TIER_MID)"

record PricingRules =
  max_above_market_pct :: real
  global_change_cap_pct :: real
  demand_up_min :: real
  demand_up_max :: real
  demand_down_max :: real
  market_band_low_pct :: real
  market_band_high_pct :: real
  match_drop_fraction :: real
  out_of_stock_bump_min :: real
  out_of_stock_bump_max :: real
  busy_season_up_min :: real
  busy_season_up_max :: real
  slow_season_down_min :: real
  slow_season_down_max :: real
  offpeak_discount_min :: real
  offpeak_discount_max :: real
  end_of_month_extra_discount :: real
  launch_discount :: real
  growth_increase :: real
  maturity_adjustment :: real
  decline_discount :: real

definition DEFAULT_RULES :: PricingRules where
  "DEFAULT_RULES =
     \<lparr>max_above_market_pct = 0.15, global_change_cap_pct = 0.07,
      demand_up_min = 0.05, demand_up_max = 0.10, demand_down_max = 0.10,
      market_band_low_pct = - 0.10, market_band_high_pct = 0.15,
      match_drop_fraction = 0.5,
      out_of_stock_bump_min = 0.05, out_of_stock_bump_max = 0.10,
      busy_season_up_min = 0.10, busy_season_up_max = 0.15,
      slow_season_down_min = 0.10, slow_season_down_max = 0.20,
      offpeak_discount_min = 0.02, offpeak_discount_max = 0.03,
      end_of_month_extra_discount = 0.05,
      launch_discount = 0.10, growth_increase = 0.05,
      maturity_adjustment = 0.00, decline_discount = 0.20\<rparr>"

section \<open>Helper functions\<close>

definition clamp :: "real \<Rightarrow> real \<Rightarrow> real \<Rightarrow> real" where
  "clamp v low high = max low (min high v)"

definition pct_change :: "real \<Rightarrow> real \<Rightarrow> real" where
  "pct_change old new = (if old = 0 then 0.0 else (new - old) / old)"

section \<open>Rule-based pricing\<close>

text \<open>
  \<^verbatim>\<open>apply_demand_adjustment\<close> tests its demand index against \<^verbatim>\<open>None\<close> first, so
  that argument is an option here.
\<close>

definition apply_demand_adjustment :: "real \<Rightarrow> real option \<Rightarrow> PricingRules \<Rightarrow> real" where
  "apply_demand_adjustment price demand_index' rules =
     (case demand_index' of
        None \<Rightarrow> price
      | Some d \<Rightarrow>
          if d > 1.0 then
            (let intensity = clamp (d - 1.0) 0.0 1.0;
                 uplift_pct = demand_up_min rules
                   + intensity * (demand_up_max rules - demand_up_min rules)
             in price * (1 + uplift_pct))
          else if d < 1.0 then
            (let intensity = clamp (1.0 - d) 0.0 1.0;
                 discount_pct = intensity * demand_down_max rules
             in price * (1 - discount_pct))
          else price)"

definition apply_lifecycle_adjustment :: "real \<Rightarrow> string \<Rightarrow> PricingRules \<Rightarrow> real" where
  "apply_lifecycle_adjustment price lifecycle rules =
     (if lifecycle = [] then price
      else
        (let lifecycle = lower lifecycle
         in if lifecycle = ''launch'' then price * (1 - launch_discount rules)
            else if lifecycle = ''growth'' then price * (1 + growth_increase rules)
            else if lifecycle = ''maturity'' then price * (1 + maturity_adjustment rules)
            else if lifecycle = ''decline'' then price * (1 - decline_discount rules)
            else price))"

definition apply_competition_adjustment ::
  "real \<Rightarrow> real \<Rightarrow> bool \<Rightarrow> PricingRules \<Rightarrow> real" where
  "apply_competition_adjustment price competitor_avg' market_oos rules =
     (if market_oos then
        (let bump = (out_of_stock_bump_min rules + out_of_stock_bump_max rules) / 2
         in price * (1 + bump))
      else price)"

definition enforce_boundaries :: "real \<Rightarrow> real \<Rightarrow> string \<Rightarrow> PricingRules \<Rightarrow> real" where
  "enforce_boundaries price cost tier' rules =
     (let tier_config = tier_config_get tier';
          min_price = cost * (1 + min_margin_pct tier_config)
      in max price min_price)"

definition calculate_rules_price ::
  "real \<Rightarrow> real \<Rightarrow> string \<Rightarrow> string \<Rightarrow> real option \<Rightarrow> real \<Rightarrow> bool \<Rightarrow> real" where
  "calculate_rules_price base_price cost tier' lifecycle demand_index' competitor_avg'
       market_oos =
     (let rules = DEFAULT_RULES;
          price = base_price;
          price = apply_demand_adjustment price demand_index' rules;
          price = apply_lifecycle_adjustment price lifecycle rules;
          price = apply_competition_adjustment price competitor_avg' market_oos rules;
          price = enforce_boundaries price cost tier' rules
      in price)"

section \<open>Smart tags\<close>

text \<open>
  A tag is one of the dictionaries of \<^verbatim>\<open>TAG_DEFINITIONS\<close>: an emoji (kept as its list
  of Unicode code points), a label and a colour. The keys of \<^verbatim>\<open>TAG_DEFINITIONS\<close> are
  the six literals below, so the dictionary is a total function on them.
\<close>

record SmartTag =
  emoji :: "nat list"
  label :: string
  color :: string

datatype tag_key =
  new_arrival | declining | competitor_oos | high_demand | margin_watch | price_leader

fun TAG_DEFINITIONS :: "tag_key \<Rightarrow> SmartTag" where
  "TAG_DEFINITIONS new_arrival =
     \<lparr>emoji = [0x1F195], label = ''New Arrival'', color = ''#10B981''\<rparr>"
| "TAG_DEFINITIONS declining =
     \<lparr>emoji = [0x1F4C9], label = ''Declining'', color = ''#EF4444''\<rparr>"
| "TAG_DEFINITIONS competitor_oos =
     \<lparr>emoji = [0x1F3C6], label = ''Competitor Out-of-Stock'', color = ''#3B82F6''\<rparr>"
| "TAG_DEFINITIONS high_demand =
     \<lparr>emoji = [0x1F525], label = ''High Demand'', color = ''#F59E0B''\<rparr>"
| "TAG_DEFINITIONS margin_watch =
     \<lparr>emoji = [0x26A0, 0xFE0F], label = ''Margin Watch'', color = ''#EF4444''\<rparr>"
| "TAG_DEFINITIONS price_leader =
     \<lparr>emoji = [0x1F451], label = ''Price Leader'', color = ''#C4437C''\<rparr>"

text \<open>
  \<^verbatim>\<open>generate_tags\<close> starts from the empty list and appends; each \<^verbatim>\<open>if\<close> of the
  source is one step on the running list.
\<close>

definition generate_tags ::
  "string \<Rightarrow> real \<Rightarrow> real \<Rightarrow> real \<Rightarrow> real \<Rightarrow> string \<Rightarrow> bool \<Rightarrow> SmartTag list" where
  "generate_tags lifecycle demand_index' margin_pct' our_price competitor_avg' tier'
       market_oos =
     (let tags = [];
          tags = (if lifecycle \<noteq> [] \<and> lower lifecycle = ''launch''
                  then tags @ [TAG_DEFINITIONS new_arrival]
                  else if lifecycle \<noteq> [] \<and> lower lifecycle = ''decline''
                  then tags @ [TAG_DEFINITIONS declining]
                  else tags);
          tags = (if market_oos then tags @ [TAG_DEFINITIONS competitor_oos] else tags);
          tags = (if demand_index' > 1.2 then tags @ [TAG_DEFINITIONS high_demand] else tags);
          tags = (if competitor_avg' > 0 \<and> our_price < competitor_avg' * 0.95
                  then tags @ [TAG_DEFINITIONS price_leader] else tags);
          tier_config = tier_config_get tier';
          tags = (if margin_pct' < min_margin_pct tier_config * 100
                  then tags @ [TAG_DEFINITIONS margin_watch] else tags)
      in tags)"

section \<open>The adjustment regressor\<close>

text \<open>
  A label encoder holds its classes sorted and without duplicates; \<^verbatim>\<open>transform\<close>
  gives the position of a label among them and raises on an unseen label (\<open>None\<close> here;
  the caller catches it).
\<close>

type_synonym LabelEncoder = "string list"

definition LabelEncoder_fit :: "string list \<Rightarrow> LabelEncoder" where
  "LabelEncoder_fit ys = sort (remdups ys)"

fun index_of :: "'a list \<Rightarrow> 'a \<Rightarrow> nat option" where
  "index_of [] y = None"
| "index_of (x # xs) y = (if x = y then Some 0 else map_option Suc (index_of xs y))"

definition LabelEncoder_transform :: "LabelEncoder \<Rightarrow> string \<Rightarrow> nat option" where
  "LabelEncoder_transform classes y = index_of classes y"

text \<open>
  The fitted regressor is the work of the numeric library and is a parameter: a function
  from the feature vector to the predicted adjustment. \<^verbatim>\<open>PricingEngine.__init__\<close>
  trains its model, so the model of an engine is a trained one; the embedding holds the
  encoders and the fitted regressor of such a model.
\<close>

record GradientBoostingPricingModel =
  encoders :: "string \<rightharpoonup> LabelEncoder"
  model :: "real list \<Rightarrow> real"

definition create_encoders :: "string \<rightharpoonup> LabelEncoder" where
  "create_encoders = map_of
     [(''tier'', LabelEncoder_fit [''Low'', ''Mid'', ''High'', ''Premium'']),
      (''category'', LabelEncoder_fit [''Chemicals'', ''Equipment'', ''Paper'', ''Other'']),
      (''lifecycle'',
         LabelEncoder_fit [''Launch'', ''Growth'', ''Maturity'', ''Decline'', ''Clearance''])]"

definition train :: "(real list \<Rightarrow> real) \<Rightarrow> GradientBoostingPricingModel" where
  "train fitted = \<lparr>encoders = create_encoders, model = fitted\<rparr>"

definition encode_or :: "(string \<rightharpoonup> LabelEncoder) \<Rightarrow> string \<Rightarrow> string \<Rightarrow> nat \<Rightarrow> nat" where
  \<comment> \<open>\<^verbatim>\<open>try: self.encoders[k].transform([v])[0]  except: default\<close>\<close>
  "encode_or encs k v dflt =
     (case encs k of
        None \<Rightarrow> dflt
      | Some enc \<Rightarrow> (case LabelEncoder_transform enc v of None \<Rightarrow> dflt | Some i \<Rightarrow> i))"

definition predict_adjustment ::
  "GradientBoostingPricingModel \<Rightarrow> real \<Rightarrow> string \<Rightarrow> string \<Rightarrow> string \<Rightarrow> real \<Rightarrow> bool
     \<Rightarrow> real \<Rightarrow> real" where
  "predict_adjustment self base_price tier' category lifecycle competitor_avg' market_oos
       demand_index' =
     (let tier_enc = encode_or (encoders self) ''tier'' tier' 1;
          cat_enc = encode_or (encoders self) ''category'' category 3;
          life_enc = encode_or (encoders self) ''lifecycle'' lifecycle 2;
          price_vs_comp = (if competitor_avg' > 0 then base_price / competitor_avg' else 1.0);
          features =
            [base_price, real tier_enc, real cat_enc, real life_enc,
             competitor_avg', price_vs_comp, (if market_oos then 1 else 0), demand_index']
      in model self features)"

section \<open>The pricing engine\<close>

record PricingEngine =
  ml_weight :: real
  ml_model :: GradientBoostingPricingModel

definition PricingEngine_init :: "(real list \<Rightarrow> real) \<Rightarrow> real \<Rightarrow> PricingEngine" where
  "PricingEngine_init fitted w = \<lparr>ml_weight = w, ml_model = train fitted\<rparr>"

record RuleAdjustments =
  demand_adj :: bool
  lifecycle_adj :: bool
  market_oos_adj :: bool
  margin_floor_applied :: bool

record Recommendation =
  product_name :: string
  recommended_price :: real
  rules_price :: real
  ml_price :: real
  ml_adjustment_pct :: real
  price_change_pct :: real
  margin_pct :: real
  smart_tags :: "SmartTag list"
  tier :: string
  demand_index :: real
  competitor_avg :: real
  rule_adjustments :: RuleAdjustments

text \<open>
  The value of \<^verbatim>\<open>hybrid_price\<close> after step 3 of \<^verbatim>\<open>get_recommendation\<close> (rule
  price, model adjustment, blend), before step 4 enforces the margin floor again. It is
  named on its own so that statements can speak of it; \<^verbatim>\<open>get_recommendation\<close> below
  is the whole method.
\<close>

definition hybrid_price_pre_floor ::
  "PricingEngine \<Rightarrow> real \<Rightarrow> real \<Rightarrow> string \<Rightarrow> string \<Rightarrow> string \<Rightarrow> real \<Rightarrow> bool \<Rightarrow> real
     \<Rightarrow> py_error + real" where
  "hybrid_price_pre_floor self base_price cost tier' category lifecycle competitor_avg'
       market_oos demand_index' =
     (let rules_price' = calculate_rules_price base_price cost tier' lifecycle
            (Some demand_index') competitor_avg' market_oos
      in case py_div (rules_price' - base_price) base_price of
           Inl e \<Rightarrow> Inl e
         | Inr rules_adjustment \<Rightarrow>
             (let ml_adjustment = predict_adjustment (ml_model self) base_price tier'
                    category lifecycle competitor_avg' market_oos demand_index';
                  blended_adjustment = (1 - ml_weight self) * rules_adjustment
                    + ml_weight self * ml_adjustment
              in Inr (base_price * (1 + blended_adjustment))))"

definition get_recommendation ::
  "PricingEngine \<Rightarrow> string \<Rightarrow> real \<Rightarrow> real \<Rightarrow> string \<Rightarrow> string \<Rightarrow> string \<Rightarrow> real \<Rightarrow> bool
     \<Rightarrow> real \<Rightarrow> py_error + Recommendation" where
  "get_recommendation self product_name' base_price cost tier' category lifecycle
       competitor_avg' market_oos demand_index' =
     (let rules_price' = calculate_rules_price base_price cost tier' lifecycle
            (Some demand_index') competitor_avg' market_oos
      in case py_div (rules_price' - base_price) base_price of
           Inl e \<Rightarrow> Inl e
         | Inr rules_adjustment \<Rightarrow>
             (let ml_adjustment = predict_adjustment (ml_model self) base_price tier'
                    category lifecycle competitor_avg' market_oos demand_index';
                  ml_price' = base_price * (1 + ml_adjustment);
                  blended_adjustment = (1 - ml_weight self) * rules_adjustment
                    + ml_weight self * ml_adjustment;
                  hybrid_price = base_price * (1 + blended_adjustment);
                  tier_config = tier_config_get tier';
                  min_price = cost * (1 + min_margin_pct tier_config);
                  hybrid_price = max hybrid_price min_price;
                  margin_pct' = (if hybrid_price > 0
                                 then ((hybrid_price - cost) / hybrid_price) * 100 else 0);
                  smart_tags' = generate_tags lifecycle demand_index' margin_pct'
                    hybrid_price competitor_avg' tier' market_oos;
                  rule_adjustments' =
                    \<lparr>demand_adj = (demand_index' \<noteq> 1.0),
                     lifecycle_adj =
                       (lower lifecycle \<in> set [''launch'', ''growth'', ''decline'']),
                     market_oos_adj = market_oos,
                     margin_floor_applied = (hybrid_price = min_price)\<rparr>
              in case py_div (hybrid_price - base_price) base_price of
                   Inl e \<Rightarrow> Inl e
                 | Inr change \<Rightarrow>
                     Inr \<lparr>product_name = product_name',
                          recommended_price = py_round hybrid_price 2,
                          rules_price = py_round rules_price' 2,
                          ml_price = py_round ml_price' 2,
                          ml_adjustment_pct = py_round (ml_adjustment * 100) 1,
                          price_change_pct = py_round (change * 100) 1,
                          margin_pct = py_round margin_pct' 1,
                          smart_tags = smart_tags',
                          tier = tier',
                          demand_index = demand_index',
                          competitor_avg = competitor_avg',
                          rule_adjustments = rule_adjustments'\<rparr>))"

section \<open>The singleton factory\<close>

text \<open>
  Engines are objects: the store holds the engines constructed so far, an engine instance
  is its address in the store, and the module variable \<^verbatim>\<open>_engine_instance\<close> is
  \<^verbatim>\<open>None\<close> or such an address.
\<close>

record module_state =
  store :: "PricingEngine list"
  engine_instance :: "nat option"

definition initial_state :: module_state where
  "initial_state = \<lparr>store = [], engine_instance = None\<rparr>"

definition get_pricing_engine ::
  "(real list \<Rightarrow> real) \<Rightarrow> real \<Rightarrow> module_state \<Rightarrow> nat \<times> module_state" where
  "get_pricing_engine fitted w s =
     (case engine_instance s of
        None \<Rightarrow>
          (let a = length (store s);
               s' = s\<lparr>store := store s @ [PricingEngine_init fitted w],
                       engine_instance := Some a\<rparr>
           in (a, s'))
      | Some a \<Rightarrow> (a, s))"

fun get_pricing_engine_calls ::
  "(real list \<Rightarrow> real) \<Rightarrow> real list \<Rightarrow> module_state \<Rightarrow> nat list \<times> module_state" where
  "get_pricing_engine_calls fitted [] s = ([], s)"
| "get_pricing_engine_calls fitted (w # ws) s =
     (let (a, s') = get_pricing_engine fitted w s;
          (as, s'') = get_pricing_engine_calls fitted ws s'
      in (a # as, s''))"

section \<open>Auxiliary definitions for the statements\<close>

text \<open>
  The condition under which each tag is issued, one per tag, and the order in which the
  five checks are made. The lifecycle check yields one of two tags, so six tags stand in
  the order. The price-leader check asks for a positive competitor average, as the source
  does.
\<close>

fun check_fires ::
  "tag_key \<Rightarrow> string \<Rightarrow> real \<Rightarrow> real \<Rightarrow> real \<Rightarrow> real \<Rightarrow> string \<Rightarrow> bool \<Rightarrow> bool" where
  "check_fires new_arrival l d m p ca t oos = (lower l = ''launch'')"
| "check_fires declining l d m p ca t oos = (lower l = ''decline'')"
| "check_fires competitor_oos l d m p ca t oos = oos"
| "check_fires high_demand l d m p ca t oos = (d > 1.2)"
| "check_fires price_leader l d m p ca t oos = (ca > 0 \<and> p < ca * 0.95)"
| "check_fires margin_watch l d m p ca t oos =
     (m < min_margin_pct (tier_config_get t) * 100)"

definition check_order :: "tag_key list" where
  "check_order =
     [new_arrival, declining, competitor_oos, high_demand, price_leader, margin_watch]"

text \<open>A regressor that predicts the same adjustment everywhere, for concrete runs.\<close>

definition constant_regressor :: "real \<Rightarrow> real list \<Rightarrow> real" where
  "constant_regressor v features = v"

section \<open>Properties of the rule cascade\<close>

lemma enforce_boundaries_max:
  "enforce_boundaries p c t r = max p (c * (1 + min_margin_pct (tier_config_get t)))"
  by (simp add: enforce_boundaries_def)

lemma apply_demand_adjustment_mult:
  "apply_demand_adjustment p d r = p * apply_demand_adjustment 1 d r"
  by (simp add: apply_demand_adjustment_def Let_def split: option.splits)

lemma apply_lifecycle_adjustment_mult:
  "apply_lifecycle_adjustment p l r = p * apply_lifecycle_adjustment 1 l r"
  by (simp add: apply_lifecycle_adjustment_def Let_def)

lemma apply_competition_adjustment_mult:
  "apply_competition_adjustment p ca oos r = p * apply_competition_adjustment 1 ca oos r"
  by (simp add: apply_competition_adjustment_def Let_def)

lemma calculate_rules_price_stages:
  "calculate_rules_price b c t l d ca oos =
     enforce_boundaries
       (apply_competition_adjustment
          (apply_lifecycle_adjustment (apply_demand_adjustment b d DEFAULT_RULES) l
             DEFAULT_RULES)
          ca oos DEFAULT_RULES)
       c t DEFAULT_RULES"
  by (simp add: calculate_rules_price_def Let_def)

lemma stages_product:
  "apply_competition_adjustment
     (apply_lifecycle_adjustment (apply_demand_adjustment b d DEFAULT_RULES) l DEFAULT_RULES)
     ca oos DEFAULT_RULES
   = b * apply_demand_adjustment 1 d DEFAULT_RULES
       * apply_lifecycle_adjustment 1 l DEFAULT_RULES
       * apply_competition_adjustment 1 ca oos DEFAULT_RULES"
  using apply_competition_adjustment_mult
      [of "apply_lifecycle_adjustment (apply_demand_adjustment b d DEFAULT_RULES) l
             DEFAULT_RULES"]
    apply_lifecycle_adjustment_mult [of "apply_demand_adjustment b d DEFAULT_RULES"]
    apply_demand_adjustment_mult [of b]
  by simp

text \<open>
  Claim C4. \<^verbatim>\<open>calculate_rules_price\<close> runs the demand stage, then the lifecycle stage,
  then the competition stage, and enforces the margin floor last. Each of the first three
  stages multiplies the running price by a factor that does not depend on the price (the
  stage applied to the price 1), so the rule price is the maximum of the base price times
  the three factors and \<open>cost * (1 + min_margin_pct)\<close> of the resolved tier.
\<close>

theorem calculate_rules_price_pipeline:
  "calculate_rules_price b c t l d ca oos =
     enforce_boundaries
       (apply_competition_adjustment
          (apply_lifecycle_adjustment (apply_demand_adjustment b d DEFAULT_RULES) l
             DEFAULT_RULES)
          ca oos DEFAULT_RULES)
       c t DEFAULT_RULES
   \<and> apply_demand_adjustment p d r = p * apply_demand_adjustment 1 d r
   \<and> apply_lifecycle_adjustment p l r = p * apply_lifecycle_adjustment 1 l r
   \<and> apply_competition_adjustment p ca oos r = p * apply_competition_adjustment 1 ca oos r
   \<and> calculate_rules_price b c t l d ca oos =
       max (b * apply_demand_adjustment 1 d DEFAULT_RULES
              * apply_lifecycle_adjustment 1 l DEFAULT_RULES
              * apply_competition_adjustment 1 ca oos DEFAULT_RULES)
           (c * (1 + min_margin_pct (tier_config_get t)))"
proof -
  have closed: "calculate_rules_price b c t l d ca oos =
       max (b * apply_demand_adjustment 1 d DEFAULT_RULES
              * apply_lifecycle_adjustment 1 l DEFAULT_RULES
              * apply_competition_adjustment 1 ca oos DEFAULT_RULES)
           (c * (1 + min_margin_pct (tier_config_get t)))"
    unfolding calculate_rules_price_stages enforce_boundaries_max stages_product ..
  show ?thesis
    using closed calculate_rules_price_stages [of b c t l d ca oos]
      apply_demand_adjustment_mult [of p d r] apply_lifecycle_adjustment_mult [of p l r]
      apply_competition_adjustment_mult [of p ca oos r]
    by blast
qed

text \<open>
  Claim C8. Under the default rules the competition stage multiplies the running price by
  \<open>1 + 0.075\<close> when the market is out of stock and leaves it unchanged otherwise, and
  its result is what the floor enforcement receives.
\<close>

theorem out_of_stock_uplift:
  "apply_competition_adjustment p ca True DEFAULT_RULES = p * (1 + 0.075)
   \<and> apply_competition_adjustment p ca False DEFAULT_RULES = p
   \<and> calculate_rules_price b c t l d ca oos =
       enforce_boundaries
         (apply_competition_adjustment
            (apply_lifecycle_adjustment (apply_demand_adjustment b d DEFAULT_RULES) l
               DEFAULT_RULES)
            ca oos DEFAULT_RULES)
         c t DEFAULT_RULES"
  by (simp add: apply_competition_adjustment_def DEFAULT_RULES_def calculate_rules_price_def
      Let_def)

subsection \<open>Demand monotonicity\<close>

lemma demand_factor_mono:
  "d1 \<le> d2 \<Longrightarrow> apply_demand_adjustment 1 (Some d1) DEFAULT_RULES
      \<le> apply_demand_adjustment 1 (Some d2) DEFAULT_RULES"
  by (simp add: apply_demand_adjustment_def DEFAULT_RULES_def clamp_def Let_def min_def
      max_def) argo

lemma lifecycle_factor_nonneg: "0 \<le> apply_lifecycle_adjustment 1 l DEFAULT_RULES"
  by (simp add: apply_lifecycle_adjustment_def DEFAULT_RULES_def Let_def)

lemma competition_factor_nonneg: "0 \<le> apply_competition_adjustment 1 ca oos DEFAULT_RULES"
  by (simp add: apply_competition_adjustment_def DEFAULT_RULES_def Let_def)

text \<open>
  Claim C5, as stated, fails below the baseline: a demand index under 1.0 gives a discount
  that shrinks as the index rises, so the rule price rises with the index there too. At
  base price 10, cost 1, tier mid, lifecycle maturity, the rule price is 9.5 at demand
  index 0.5 and 10 at demand index 1.0.
\<close>

theorem rules_price_not_antitone_below_one:
  "(0.5::real) \<le> 1.0 \<and> (1.0::real) \<le> 1.0
    \<and> calculate_rules_price 10 1 ''mid'' ''maturity'' (Some 0.5) 10 False
         < calculate_rules_price 10 1 ''mid'' ''maturity'' (Some 1.0) 10 False"
  by code_simp

text \<open>
  Claim C5, amended. With a base price that is not negative and all other inputs fixed, the
  rule price is non-decreasing in the demand index over its whole range, so over demand
  index at least 1.0 and over demand index at most 1.0 alike.
\<close>

theorem rules_price_mono_demand:
  assumes "0 \<le> b" and "d1 \<le> d2"
  shows "calculate_rules_price b c t l (Some d1) ca oos
           \<le> calculate_rules_price b c t l (Some d2) ca oos"
proof -
  let ?f = "\<lambda>d. apply_demand_adjustment 1 (Some d) DEFAULT_RULES"
  let ?g = "apply_lifecycle_adjustment 1 l DEFAULT_RULES
              * apply_competition_adjustment 1 ca oos DEFAULT_RULES"
  have g: "0 \<le> ?g"
    using lifecycle_factor_nonneg competition_factor_nonneg by simp
  have "b * ?f d1 \<le> b * ?f d2"
    using assms demand_factor_mono by (simp add: mult_left_mono)
  then have "b * ?f d1 * ?g \<le> b * ?f d2 * ?g"
    using g by (rule mult_right_mono)
  then have "b * ?f d1 * apply_lifecycle_adjustment 1 l DEFAULT_RULES
                * apply_competition_adjustment 1 ca oos DEFAULT_RULES
              \<le> b * ?f d2 * apply_lifecycle_adjustment 1 l DEFAULT_RULES
                * apply_competition_adjustment 1 ca oos DEFAULT_RULES"
    by (simp add: mult.assoc)
  then show ?thesis
    unfolding calculate_rules_price_stages enforce_boundaries_max stages_product
    by linarith
qed

theorem rules_price_mono_demand_witness:
  "(0::real) \<le> 10 \<and> (0.5::real) \<le> 1.0
    \<and> calculate_rules_price 10 1 ''mid'' ''maturity'' (Some 0.5) 10 False
         \<le> calculate_rules_price 10 1 ''mid'' ''maturity'' (Some 1.0) 10 False"
  using rules_price_mono_demand [of 10 "0.5" "1.0" 1 "''mid''" "''maturity''" 10 False]
  by simp

section \<open>Properties of the tag generator\<close>

lemma lower_Nil: "lower [] = []"
  by (simp add: lower_def)

lemma inj_TAG_DEFINITIONS: "inj TAG_DEFINITIONS"
proof (rule injI)
  fix x y assume "TAG_DEFINITIONS x = TAG_DEFINITIONS y"
  then have "label (TAG_DEFINITIONS x) = label (TAG_DEFINITIONS y)" by simp
  then show "x = y" by (cases x; cases y; simp)
qed

lemma generate_tags_filter:
  "generate_tags l d m p ca t oos =
     map TAG_DEFINITIONS (filter (\<lambda>k. check_fires k l d m p ca t oos) check_order)"
  by (cases "l = []") (simp_all add: generate_tags_def check_order_def Let_def lower_Nil)

text \<open>
  Claim C9. The tags returned by \<^verbatim>\<open>generate_tags\<close> are those of the checks that hold,
  each check deciding its own tag alone (lifecycle launch or decline, out-of-stock flag,
  demand index above 1.2, a positive competitor average with our price under 95% of it,
  margin percent under 100 times the tier's minimum margin), listed in the order of the
  checks, and no tag occurs twice.
\<close>

theorem generate_tags_checks:
  "generate_tags l d m p ca t oos =
     map TAG_DEFINITIONS (filter (\<lambda>k. check_fires k l d m p ca t oos) check_order)
   \<and> distinct (generate_tags l d m p ca t oos)
   \<and> (\<forall>k. (TAG_DEFINITIONS k \<in> set (generate_tags l d m p ca t oos))
           = check_fires k l d m p ca t oos)"
proof -
  have d: "distinct check_order" by (simp add: check_order_def)
  have all: "k \<in> set check_order" for k by (cases k) (simp_all add: check_order_def)
  have "distinct (generate_tags l d m p ca t oos)"
    unfolding generate_tags_filter
    using d inj_TAG_DEFINITIONS by (simp add: distinct_map inj_on_def inj_def)
  moreover have "(TAG_DEFINITIONS k \<in> set (generate_tags l d m p ca t oos))
           = check_fires k l d m p ca t oos" for k
    unfolding generate_tags_filter
    using all [of k] inj_TAG_DEFINITIONS by (auto simp: inj_def)
  ultimately show ?thesis using generate_tags_filter by blast
qed

section \<open>Properties of the singleton factory\<close>

lemma get_pricing_engine_Some:
  "engine_instance s = Some a \<Longrightarrow> get_pricing_engine fitted w s = (a, s)"
  by (simp add: get_pricing_engine_def)

lemma get_pricing_engine_calls_Some:
  "engine_instance s = Some a \<Longrightarrow>
     get_pricing_engine_calls fitted ws s = (replicate (length ws) a, s)"
  by (induction ws) (simp_all add: get_pricing_engine_Some)

text \<open>
  Claim C10. Let the first call \<^verbatim>\<open>get_pricing_engine(w)\<close> find no instance. It
  constructs an engine with weight \<open>w\<close> and returns its address. Every later call, with
  any weight \<open>w'\<close>, and every sequence of later calls, returns that same address and
  leaves the state as it is, so the engine's weight is still \<open>w\<close>.
\<close>

theorem get_pricing_engine_singleton:
  assumes "engine_instance s = None"
  shows "case get_pricing_engine fitted w s of
           (a, s1) \<Rightarrow>
             get_pricing_engine fitted w' s1 = (a, s1)
             \<and> get_pricing_engine_calls fitted ws s1 = (replicate (length ws) a, s1)
             \<and> a < length (store s1)
             \<and> store s1 ! a = PricingEngine_init fitted w
             \<and> ml_weight (store s1 ! a) = w"
proof -
  obtain a s1 where r: "get_pricing_engine fitted w s = (a, s1)" by force
  from r assms have a: "a = length (store s)"
    and s1: "s1 = s\<lparr>store := store s @ [PricingEngine_init fitted w],
                    engine_instance := Some a\<rparr>"
    by (auto simp: get_pricing_engine_def Let_def)
  from s1 have inst: "engine_instance s1 = Some a" by simp
  have st: "store s1 ! a = PricingEngine_init fitted w" using a s1 by simp
  have "ml_weight (store s1 ! a) = w" unfolding st by (simp add: PricingEngine_init_def)
  moreover have "a < length (store s1)" using a s1 by simp
  ultimately show ?thesis
    using r st get_pricing_engine_Some [OF inst] get_pricing_engine_calls_Some [OF inst]
    by simp
qed

theorem get_pricing_engine_singleton_witness:
  "engine_instance initial_state = None
   \<and> (case get_pricing_engine (constant_regressor 0) 0.5 initial_state of
         (a, s1) \<Rightarrow>
           get_pricing_engine (constant_regressor 0) 0.9 s1 = (a, s1)
           \<and> get_pricing_engine_calls (constant_regressor 0) [0.9, 0.1] s1
               = (replicate (length [0.9, 0.1 :: real]) a, s1)
           \<and> a < length (store s1)
           \<and> store s1 ! a = PricingEngine_init (constant_regressor 0) 0.5
           \<and> ml_weight (store s1 ! a) = 0.5)"
proof -
  have h: "engine_instance initial_state = None" by (simp add: initial_state_def)
  show ?thesis
    using h get_pricing_engine_singleton [OF h, where fitted = "constant_regressor 0"
        and w = "0.5" and w' = "0.9" and ws = "[0.9, 0.1]"]
    by blast
qed

section \<open>Rounding\<close>

lemma round_half_even_cases:
  "round_half_even y = \<lfloor>y\<rfloor> \<and> y - of_int \<lfloor>y\<rfloor> \<le> 1 / 2
   \<or> round_half_even y = \<lfloor>y\<rfloor> + 1 \<and> 1 / 2 \<le> y - of_int \<lfloor>y\<rfloor>"
  by (auto simp: round_half_even_def Let_def)

lemma round_half_even_lower: "y - 1 / 2 \<le> of_int (round_half_even y)"
  using round_half_even_cases [of y] of_int_floor_le [of y] by (auto; linarith)

lemma round_half_even_upper: "of_int (round_half_even y) \<le> y + 1 / 2"
  using round_half_even_cases [of y] by (auto; linarith)

lemma round_half_even_mono:
  assumes "x \<le> y" shows "round_half_even x \<le> round_half_even y"
proof (cases "\<lfloor>x\<rfloor> = \<lfloor>y\<rfloor>")
  case True
  then show ?thesis
    using assms by (auto simp: round_half_even_def Let_def)
next
  case False
  then have "\<lfloor>x\<rfloor> + 1 \<le> \<lfloor>y\<rfloor>" using floor_mono [OF assms] by linarith
  moreover have "round_half_even x \<le> \<lfloor>x\<rfloor> + 1"
    using round_half_even_cases [of x] by auto
  moreover have "\<lfloor>y\<rfloor> \<le> round_half_even y"
    using round_half_even_cases [of y] by auto
  ultimately show ?thesis by linarith
qed

lemma py_round_mono: "x \<le> y \<Longrightarrow> py_round x n \<le> py_round y n"
  unfolding py_round_def
  by (intro divide_right_mono) (simp_all add: round_half_even_mono mult_right_mono)

lemma py_round_lower: "x - 1 / (2 * 10 ^ n) \<le> py_round x n"
proof -
  have "x * 10 ^ n - 1 / 2 \<le> of_int (round_half_even (x * 10 ^ n))"
    by (rule round_half_even_lower)
  then have "(x * 10 ^ n - 1 / 2) / 10 ^ n \<le> py_round x n"
    unfolding py_round_def by (intro divide_right_mono) simp_all
  then show ?thesis by (simp add: field_simps)
qed

lemma py_round_upper: "py_round x n \<le> x + 1 / (2 * 10 ^ n)"
proof -
  have "of_int (round_half_even (x * 10 ^ n)) \<le> x * 10 ^ n + 1 / 2"
    by (rule round_half_even_upper)
  then have "py_round x n \<le> (x * 10 ^ n + 1 / 2) / 10 ^ n"
    unfolding py_round_def by (intro divide_right_mono) simp_all
  then show ?thesis by (simp add: field_simps)
qed

section \<open>Properties of the recommendation\<close>

lemma hybrid_price_pre_floor_zero:
  "hybrid_price_pre_floor e 0 c t cat l ca oos d = Inl ZeroDivisionError"
  by (simp add: hybrid_price_pre_floor_def py_div_def Let_def)

lemma hybrid_price_pre_floor_nonzero:
  "b \<noteq> 0 \<Longrightarrow> hybrid_price_pre_floor e b c t cat l ca oos d =
     Inr (b * (1 + ((1 - ml_weight e)
                      * ((calculate_rules_price b c t l (Some d) ca oos - b) / b)
                    + ml_weight e * predict_adjustment (ml_model e) b t cat l ca oos d)))"
  by (simp add: hybrid_price_pre_floor_def py_div_def Let_def)

lemma get_recommendation_zero:
  "get_recommendation e n 0 c t cat l ca oos d = Inl ZeroDivisionError"
  by (simp add: get_recommendation_def py_div_def Let_def)

lemma get_recommendation_nonzero:
  assumes "b \<noteq> 0"
    and "hybrid_price_pre_floor e b c t cat l ca oos d = Inr h"
  shows "\<exists>r. get_recommendation e n b c t cat l ca oos d = Inr r
     \<and> recommended_price r = py_round (max h (c * (1 + min_margin_pct (tier_config_get t)))) 2
     \<and> price_change_pct r
         = py_round ((max h (c * (1 + min_margin_pct (tier_config_get t))) - b) / b * 100) 1
     \<and> rules_price r = py_round (calculate_rules_price b c t l (Some d) ca oos) 2
     \<and> tier r = t"
  using assms
  by (simp add: get_recommendation_def hybrid_price_pre_floor_def py_div_def Let_def)

lemma py_round_abs: "\<bar>py_round x n - x\<bar> \<le> 1 / (2 * 10 ^ n)"
  using py_round_lower [of x n] py_round_upper [of x n] by linarith

lemma py_round_abs_1: "\<bar>py_round x 1 - x\<bar> \<le> 1 / 20"
  using py_round_abs [of x 1] by simp

lemma py_round_abs_2: "\<bar>py_round x 2 - x\<bar> \<le> 1 / 200"
  using py_round_abs [of x 2] by simp

lemma rules_price_ge_floor:
  "c * (1 + min_margin_pct (tier_config_get t)) \<le> calculate_rules_price b c t l d ca oos"
  by (simp add: calculate_rules_price_stages enforce_boundaries_max)

lemma rules_only_recommendation:
  assumes "b \<noteq> 0"
  shows "\<exists>r. get_recommendation (PricingEngine_init fitted 0) n b c t cat l ca oos d = Inr r
     \<and> recommended_price r = py_round (calculate_rules_price b c t l (Some d) ca oos) 2
     \<and> price_change_pct r
         = py_round ((calculate_rules_price b c t l (Some d) ca oos - b) / b * 100) 1
     \<and> tier r = t"
proof -
  let ?E = "PricingEngine_init fitted 0"
  let ?rp = "calculate_rules_price b c t l (Some d) ca oos"
  have w: "ml_weight ?E = 0" by (simp add: PricingEngine_init_def)
  have h: "hybrid_price_pre_floor ?E b c t cat l ca oos d = Inr ?rp"
    using assms by (simp add: hybrid_price_pre_floor_nonzero w field_simps)
  have m: "max ?rp (c * (1 + min_margin_pct (tier_config_get t))) = ?rp"
    using rules_price_ge_floor [of c t b l "Some d" ca oos] by simp
  show ?thesis
    using get_recommendation_nonzero [OF assms h, of n] unfolding m by blast
qed

lemma mid_margin: "min_margin_pct (tier_config_get ''mid'') = 0.15"
  by (simp add: tier_config_get_def TIER_CONFIGS_def TIER_MID_def lower_def lower_char_def)

lemma rules_price_8: 
  "calculate_rules_price 8 7.01 ''mid'' ''maturity'' (Some 1.0) 8 False = 8.0615"
  by code_simp

lemma rules_price_3:
  "calculate_rules_price 3 5 ''mid'' ''maturity'' (Some 1.0) 3 False = 5.75"
  by code_simp

lemma py_round_examples:
  "py_round 8.0615 2 = 8.06" "py_round 5.75 2 = 5.75"
  "py_round ((5.75 - 3) / 3 * 100) 1 = 91.7"
  by (simp_all add: py_round_def round_half_even_def)

lemma abs_chain:
  fixes a x y e1 e2 :: real
  assumes "\<bar>a - x\<bar> \<le> e1" and "\<bar>x - y\<bar> \<le> e2"
  shows "\<bar>a - y\<bar> \<le> e1 + e2"
  using assms by linarith

lemma pct_gap:
  fixes b hp rp :: real
  assumes "0 < b" and "\<bar>rp - hp\<bar> \<le> 1 / 200"
  shows "\<bar>(hp - b) / b * 100 - (rp - b) / b * 100\<bar> \<le> 1 / (2 * b)"
proof -
  have pos: "0 < 100 / b" using assms(1) by simp
  have "(hp - b) / b * 100 - (rp - b) / b * 100 = (hp - rp) * (100 / b)"
    using assms(1) by (simp add: field_simps)
  then have "\<bar>(hp - b) / b * 100 - (rp - b) / b * 100\<bar> = \<bar>hp - rp\<bar> * (100 / b)"
    by (simp only: abs_mult abs_of_pos [OF pos])
  also have "\<dots> \<le> (1 / 200) * (100 / b)"
    using assms(2) pos by (intro mult_right_mono) (simp_all add: abs_minus_commute)
  also have "\<dots> = 1 / (2 * b)" by simp
  finally show ?thesis .
qed

subsection \<open>The margin floor\<close>

text \<open>
  Claim C1, as stated, fails by the rounding of the returned field. With cost 7.01 and
  tier mid the floor is \<open>7.01 * 1.15 = 8.0615\<close>; at base price 8, demand index 1.0,
  lifecycle maturity and weight 0 the floor binds, the hybrid price is 8.0615, and the
  \<^verbatim>\<open>recommended_price\<close> field is its rounding 8.06, under the floor.
\<close>

theorem recommended_price_below_floor:
  "(0::real) < 7.01
   \<and> 0 \<le> ml_weight (PricingEngine_init (constant_regressor 0) 0)
   \<and> ml_weight (PricingEngine_init (constant_regressor 0) 0) \<le> 1
   \<and> (case get_recommendation (PricingEngine_init (constant_regressor 0) 0) ''p'' 8 7.01
              ''mid'' ''Other'' ''maturity'' 8 False 1.0 of
         Inl e \<Rightarrow> False
       | Inr r \<Rightarrow> recommended_price r = 8.06
           \<and> 7.01 * (1 + min_margin_pct (tier_config_get ''mid'')) = 8.0615
           \<and> recommended_price r < 7.01 * (1 + min_margin_pct (tier_config_get ''mid'')))"
proof -
  have w: "ml_weight (PricingEngine_init (constant_regressor 0) 0) = 0"
    by (simp add: PricingEngine_init_def)
  have nz: "(8::real) \<noteq> 0" by simp
  obtain r where r: "get_recommendation (PricingEngine_init (constant_regressor 0) 0) ''p''
        8 7.01 ''mid'' ''Other'' ''maturity'' 8 False 1.0 = Inr r"
    and p: "recommended_price r = py_round
        (calculate_rules_price 8 7.01 ''mid'' ''maturity'' (Some 1.0) 8 False) 2"
    using rules_only_recommendation [OF nz] by blast
  have p': "recommended_price r = 8.06"
    unfolding p rules_price_8 by (rule py_round_examples)
  show ?thesis
    unfolding r w mid_margin p' sum.case by simp
qed

text \<open>
  Claim C1, amended. Whenever the base price is not zero, \<^verbatim>\<open>get_recommendation\<close>
  returns a record whose \<^verbatim>\<open>recommended_price\<close> is the rounding to two decimals of a
  hybrid price that is at least \<open>cost * (1 + min_margin_pct)\<close> for the resolved tier.
  So the field is at least the floor rounded to two decimals, and at least the floor less
  half a cent. Cost, tier string and weight are arbitrary.
\<close>

theorem recommended_price_margin_floor:
  assumes "b \<noteq> 0"
  shows "\<exists>r hp. get_recommendation e n b c t cat l ca oos d = Inr r
     \<and> c * (1 + min_margin_pct (tier_config_get t)) \<le> hp
     \<and> recommended_price r = py_round hp 2
     \<and> py_round (c * (1 + min_margin_pct (tier_config_get t))) 2 \<le> recommended_price r
     \<and> c * (1 + min_margin_pct (tier_config_get t)) - 1 / 200 \<le> recommended_price r"
proof -
  let ?floor = "c * (1 + min_margin_pct (tier_config_get t))"
  obtain h where h: "hybrid_price_pre_floor e b c t cat l ca oos d = Inr h"
    using hybrid_price_pre_floor_nonzero [OF assms] by blast
  obtain r where r: "get_recommendation e n b c t cat l ca oos d = Inr r"
    and rp: "recommended_price r = py_round (max h ?floor) 2"
    using get_recommendation_nonzero [OF assms h] by blast
  have le: "?floor \<le> max h ?floor" by simp
  have "py_round ?floor 2 \<le> recommended_price r"
    unfolding rp using le by (rule py_round_mono)
  moreover have "?floor - 1 / 200 \<le> recommended_price r"
    unfolding rp using py_round_lower [of "max h ?floor" 2] le by simp
  ultimately show ?thesis using r rp le by blast
qed

theorem recommended_price_margin_floor_witness:
  "(8::real) \<noteq> 0
   \<and> (\<exists>r hp. get_recommendation (PricingEngine_init (constant_regressor 0) 0) ''p'' 8 7.01
              ''mid'' ''Other'' ''maturity'' 8 False 1.0 = Inr r
     \<and> 7.01 * (1 + min_margin_pct (tier_config_get ''mid'')) \<le> hp
     \<and> recommended_price r = py_round hp 2
     \<and> py_round (7.01 * (1 + min_margin_pct (tier_config_get ''mid''))) 2
          \<le> recommended_price r
     \<and> 7.01 * (1 + min_margin_pct (tier_config_get ''mid'')) - 1 / 200
          \<le> recommended_price r)"
proof -
  have h: "(8::real) \<noteq> 0" by simp
  show ?thesis
    using h recommended_price_margin_floor [OF h,
       where e = "PricingEngine_init (constant_regressor 0) 0"
       and n = "''p''" and c = "7.01" and t = "''mid''" and cat = "''Other''"
       and l = "''maturity''" and ca = 8 and oos = False and d = "1.0"]
    by blast
qed

subsection \<open>A base price of zero\<close>

text \<open>
  Claim C2. The claim asks that a base price of 0 does not raise and gives zero percentage
  fields. The code does not do so: \<^verbatim>\<open>get_recommendation\<close> divides by the base price
  without a guard, first for the rule adjustment, and at base price 0 that division raises
  \<^verbatim>\<open>ZeroDivisionError\<close>, whatever the other inputs and the engine; no record is
  returned. The helper \<^verbatim>\<open>_pct_change\<close> of the same module, which is not called, has the
  guard and returns 0 for an old value of 0.
\<close>

theorem get_recommendation_zero_base_raises:
  "get_recommendation e n 0 c t cat l ca oos d = Inl ZeroDivisionError
   \<and> hybrid_price_pre_floor e 0 c t cat l ca oos d = Inl ZeroDivisionError
   \<and> pct_change 0 x = 0"
  by (simp add: get_recommendation_def hybrid_price_pre_floor_def py_div_def pct_change_def
      Let_def)

subsection \<open>The blend\<close>

text \<open>
  Claim C3. For a positive base price, the hybrid price before the floor is enforced again
  is the rule price when the weight is 0, and is \<open>base_price * (1 + ml_adjustment)\<close>
  when the weight is 1. The price so named is the one \<^verbatim>\<open>get_recommendation\<close>
  floors and rounds into \<^verbatim>\<open>recommended_price\<close>.
\<close>

theorem blend_boundary:
  assumes "0 < b"
  shows "hybrid_price_pre_floor (e\<lparr>ml_weight := 0\<rparr>) b c t cat l ca oos d
           = Inr (calculate_rules_price b c t l (Some d) ca oos)
     \<and> hybrid_price_pre_floor (e\<lparr>ml_weight := 1\<rparr>) b c t cat l ca oos d
           = Inr (b * (1 + predict_adjustment (ml_model e) b t cat l ca oos d))
     \<and> (\<exists>r h. hybrid_price_pre_floor e b c t cat l ca oos d = Inr h
           \<and> get_recommendation e n b c t cat l ca oos d = Inr r
           \<and> recommended_price r
               = py_round (max h (c * (1 + min_margin_pct (tier_config_get t)))) 2)"
proof -
  from assms have nz: "b \<noteq> 0" by simp
  have a: "hybrid_price_pre_floor (e\<lparr>ml_weight := 0\<rparr>) b c t cat l ca oos d
           = Inr (calculate_rules_price b c t l (Some d) ca oos)"
    using nz by (simp add: hybrid_price_pre_floor_nonzero field_simps)
  have b: "hybrid_price_pre_floor (e\<lparr>ml_weight := 1\<rparr>) b c t cat l ca oos d
           = Inr (b * (1 + predict_adjustment (ml_model e) b t cat l ca oos d))"
    using nz by (simp add: hybrid_price_pre_floor_nonzero)
  obtain h where h: "hybrid_price_pre_floor e b c t cat l ca oos d = Inr h"
    using hybrid_price_pre_floor_nonzero [OF nz] by blast
  show ?thesis using a b get_recommendation_nonzero [OF nz h] h by blast
qed

theorem blend_boundary_witness:
  "(0::real) < 8
   \<and> hybrid_price_pre_floor
         ((PricingEngine_init (constant_regressor 0.05) 0.5)\<lparr>ml_weight := 0\<rparr>)
         8 7.01 ''mid'' ''Other'' ''growth'' 8 False 1.1
       = Inr (calculate_rules_price 8 7.01 ''mid'' ''growth'' (Some 1.1) 8 False)
   \<and> hybrid_price_pre_floor
         ((PricingEngine_init (constant_regressor 0.05) 0.5)\<lparr>ml_weight := 1\<rparr>)
         8 7.01 ''mid'' ''Other'' ''growth'' 8 False 1.1
       = Inr (8 * (1 + predict_adjustment
                          (ml_model (PricingEngine_init (constant_regressor 0.05) 0.5))
                          8 ''mid'' ''Other'' ''growth'' 8 False 1.1))
   \<and> (\<exists>r h. hybrid_price_pre_floor (PricingEngine_init (constant_regressor 0.05) 0.5)
                8 7.01 ''mid'' ''Other'' ''growth'' 8 False 1.1 = Inr h
           \<and> get_recommendation (PricingEngine_init (constant_regressor 0.05) 0.5) ''p''
                8 7.01 ''mid'' ''Other'' ''growth'' 8 False 1.1 = Inr r
           \<and> recommended_price r
               = py_round (max h (7.01 * (1 + min_margin_pct (tier_config_get ''mid'')))) 2)"
proof -
  have h: "(0::real) < 8" by simp
  show ?thesis
    using h blend_boundary [OF h,
       where e = "PricingEngine_init (constant_regressor 0.05) 0.5"
       and n = "''p''" and c = "7.01" and t = "''mid''" and cat = "''Other''"
       and l = "''growth''" and ca = 8 and oos = False and d = "1.1"]
    by blast
qed

subsection \<open>The price change percentage\<close>

text \<open>
  Claim C7, as stated, fails: the percentage is rounded to one decimal. At base price 3,
  cost 5, tier mid and weight 0 the record has \<^verbatim>\<open>recommended_price\<close> 5.75 and
  \<^verbatim>\<open>price_change_pct\<close> 91.7, while \<open>(5.75 - 3) / 3 * 100\<close> is 91.66....
\<close>

theorem price_change_pct_not_exact:
  "(0::real) < 3
   \<and> (case get_recommendation (PricingEngine_init (constant_regressor 0) 0) ''p'' 3 5
              ''mid'' ''Other'' ''maturity'' 3 False 1.0 of
         Inl e \<Rightarrow> False
       | Inr r \<Rightarrow> recommended_price r = 5.75 \<and> price_change_pct r = 91.7
           \<and> price_change_pct r \<noteq> (recommended_price r - 3) / 3 * 100)"
proof -
  have nz: "(3::real) \<noteq> 0" by simp
  obtain r where r: "get_recommendation (PricingEngine_init (constant_regressor 0) 0) ''p''
        3 5 ''mid'' ''Other'' ''maturity'' 3 False 1.0 = Inr r"
    and p: "recommended_price r = py_round
        (calculate_rules_price 3 5 ''mid'' ''maturity'' (Some 1.0) 3 False) 2"
    and q: "price_change_pct r = py_round
        ((calculate_rules_price 3 5 ''mid'' ''maturity'' (Some 1.0) 3 False - 3) / 3 * 100) 1"
    using rules_only_recommendation [OF nz] by blast
  have p': "recommended_price r = 5.75"
    unfolding p rules_price_3 by (rule py_round_examples)
  have q': "price_change_pct r = 91.7"
    unfolding q rules_price_3 by (rule py_round_examples)
  show ?thesis
    unfolding r p' q' sum.case by simp
qed

text \<open>
  Claim C7, amended. For a positive base price, \<^verbatim>\<open>price_change_pct\<close> is
  \<open>(hybrid_price - base_price) / base_price * 100\<close> rounded to one decimal, where
  \<open>hybrid_price\<close> is the floored hybrid price before rounding, of which
  \<^verbatim>\<open>recommended_price\<close> is the rounding to two decimals. It differs from the same
  expression over the returned \<^verbatim>\<open>recommended_price\<close> by at most
  \<open>0.05 + 0.5 / base_price\<close>.
\<close>

theorem price_change_pct_rounded:
  assumes "0 < b"
  shows "\<exists>r h. hybrid_price_pre_floor e b c t cat l ca oos d = Inr h
     \<and> get_recommendation e n b c t cat l ca oos d = Inr r
     \<and> recommended_price r
         = py_round (max h (c * (1 + min_margin_pct (tier_config_get t)))) 2
     \<and> price_change_pct r
         = py_round ((max h (c * (1 + min_margin_pct (tier_config_get t))) - b) / b * 100) 1
     \<and> \<bar>price_change_pct r - (recommended_price r - b) / b * 100\<bar> \<le> 1 / 20 + 1 / (2 * b)"
proof -
  let ?floor = "c * (1 + min_margin_pct (tier_config_get t))"
  from assms have nz: "b \<noteq> 0" by simp
  obtain h where h: "hybrid_price_pre_floor e b c t cat l ca oos d = Inr h"
    using hybrid_price_pre_floor_nonzero [OF nz] by blast
  obtain r where r: "get_recommendation e n b c t cat l ca oos d = Inr r"
    and rp: "recommended_price r = py_round (max h ?floor) 2"
    and pc: "price_change_pct r = py_round ((max h ?floor - b) / b * 100) 1"
    using get_recommendation_nonzero [OF nz h] by blast
  let ?hp = "max h ?floor"
  let ?x = "(?hp - b) / b * 100"
  have x1: "\<bar>price_change_pct r - ?x\<bar> \<le> 1 / 20"
    unfolding pc by (rule py_round_abs_1)
  have r1: "\<bar>recommended_price r - ?hp\<bar> \<le> 1 / 200"
    unfolding rp by (rule py_round_abs_2)
  have x2: "\<bar>?x - (recommended_price r - b) / b * 100\<bar> \<le> 1 / (2 * b)"
    using assms r1 by (rule pct_gap)
  have "\<bar>price_change_pct r - (recommended_price r - b) / b * 100\<bar> \<le> 1 / 20 + 1 / (2 * b)"
    using x1 x2 by (rule abs_chain)
  then show ?thesis using h r rp pc by blast
qed

theorem price_change_pct_rounded_witness:
  "(0::real) < 3
   \<and> (\<exists>r h. hybrid_price_pre_floor (PricingEngine_init (constant_regressor 0) 0) 3 5
              ''mid'' ''Other'' ''maturity'' 3 False 1.0 = Inr h
     \<and> get_recommendation (PricingEngine_init (constant_regressor 0) 0) ''p'' 3 5
              ''mid'' ''Other'' ''maturity'' 3 False 1.0 = Inr r
     \<and> recommended_price r
         = py_round (max h (5 * (1 + min_margin_pct (tier_config_get ''mid'')))) 2
     \<and> price_change_pct r
         = py_round ((max h (5 * (1 + min_margin_pct (tier_config_get ''mid''))) - 3) / 3
                       * 100) 1
     \<and> \<bar>price_change_pct r - (recommended_price r - 3) / 3 * 100\<bar> \<le> 1 / 20 + 1 / (2 * 3))"
proof -
  have h: "(0::real) < 3" by simp
  show ?thesis
    using h price_change_pct_rounded [OF h,
       where e = "PricingEngine_init (constant_regressor 0) 0"
       and n = "''p''" and c = 5 and t = "''mid''" and cat = "''Other''"
       and l = "''maturity''" and ca = 3 and oos = False and d = "1.0"]
    by blast
qed

section \<open>Unknown tiers\<close>

text \<open>
  The tier encoder knows the capitalised labels only, sorted: the fallback code 1 is the
  code of \<^verbatim>\<open>"Low"\<close>, and the lower-case \<^verbatim>\<open>"mid"\<close> is itself an unseen label.
\<close>

lemma index_of_None: "(index_of xs y = None) = (y \<notin> set xs)"
  by (induction xs) auto

lemma tier_classes:
  "create_encoders ''tier'' = Some [''High'', ''Low'', ''Mid'', ''Premium'']"
  by code_simp

lemma lower_tier_classes:
  "lower ''High'' = ''high''" "lower ''Low'' = ''low''" "lower ''Mid'' = ''mid''"
  "lower ''Premium'' = ''premium''" "lower ''mid'' = ''mid''"
  by code_simp+

lemma encode_tier_unknown:
  assumes "lower t \<notin> {''low'', ''mid'', ''high'', ''premium''}"
  shows "encode_or create_encoders ''tier'' t 1 = 1"
proof -
  have "t \<notin> set [''High'', ''Low'', ''Mid'', ''Premium'']"
    using assms lower_tier_classes by auto
  then have "index_of [''High'', ''Low'', ''Mid'', ''Premium''] t = None"
    using index_of_None [of "[''High'', ''Low'', ''Mid'', ''Premium'']" t] by blast
  then show ?thesis
    by (simp add: encode_or_def tier_classes LabelEncoder_transform_def)
qed

lemma encode_tier_mid: "encode_or create_encoders ''tier'' ''mid'' 1 = 1"
  using encode_tier_unknown [of "''xyz''"]
  by (simp add: encode_or_def tier_classes LabelEncoder_transform_def)

lemma encode_tier_Mid: "encode_or create_encoders ''tier'' ''Mid'' 1 = 2"
  by (simp add: encode_or_def tier_classes LabelEncoder_transform_def)

lemma tier_config_get_unknown:
  "lower t \<notin> {''low'', ''mid'', ''high'', ''premium''} \<Longrightarrow> tier_config_get t = TIER_MID"
  by (simp add: tier_config_get_def TIER_CONFIGS_def)

lemma tier_config_get_mid: "tier_config_get ''mid'' = TIER_MID"
  by (simp add: tier_config_get_def TIER_CONFIGS_def lower_tier_classes)

lemma unknown_tier_rules_price:
  "lower t \<notin> {''low'', ''mid'', ''high'', ''premium''} \<Longrightarrow>
     calculate_rules_price b c t l d ca oos = calculate_rules_price b c ''mid'' l d ca oos"
  by (simp add: calculate_rules_price_stages enforce_boundaries_max tier_config_get_unknown
      tier_config_get_mid)

lemma unknown_tier_predict:
  "lower t \<notin> {''low'', ''mid'', ''high'', ''premium''} \<Longrightarrow>
     predict_adjustment (train fitted) b t cat l ca oos d
       = predict_adjustment (train fitted) b ''mid'' cat l ca oos d"
  using encode_tier_unknown [of t] encode_tier_mid
  by (simp add: predict_adjustment_def train_def)

lemma unknown_tier_tags:
  "lower t \<notin> {''low'', ''mid'', ''high'', ''premium''} \<Longrightarrow>
     generate_tags l d m p ca t oos = generate_tags l d m p ca ''mid'' oos"
  by (simp add: generate_tags_def tier_config_get_unknown tier_config_get_mid)

lemma rules_price_Low:
  "calculate_rules_price 8 7.01 ''Low'' ''maturity'' (Some 1.0) 8 False = 8"
  by code_simp

lemma py_round_8: "py_round 8 2 = 8"
  by (simp add: py_round_def round_half_even_def)

text \<open>
  Claim C6, as stated, fails in two ways. The tier is looked up by its lower-case form, so
  \<^verbatim>\<open>"Low"\<close>, which is not literally one of the four names, is the low tier and not
  the mid tier: at base price 8 and cost 7.01 it recommends 8, where \<^verbatim>\<open>"mid"\<close>
  recommends 8.06. And the record echoes the tier string it was given, so even the record
  for \<^verbatim>\<open>"xyz"\<close> is not the record for \<^verbatim>\<open>"mid"\<close>.
\<close>

theorem unknown_tier_echoed:
  "''Low'' \<notin> {''low'', ''mid'', ''high'', ''premium''}
   \<and> (case (get_recommendation (PricingEngine_init (constant_regressor 0) 0) ''p'' 8 7.01
               ''Low'' ''Other'' ''maturity'' 8 False 1.0,
             get_recommendation (PricingEngine_init (constant_regressor 0) 0) ''p'' 8 7.01
               ''mid'' ''Other'' ''maturity'' 8 False 1.0) of
         (Inr r1, Inr r2) \<Rightarrow> recommended_price r1 = 8 \<and> recommended_price r2 = 8.06
       | _ \<Rightarrow> False)
   \<and> lower ''xyz'' \<notin> {''low'', ''mid'', ''high'', ''premium''}
   \<and> get_recommendation (PricingEngine_init (constant_regressor 0) 0) ''p'' 10 7
        ''xyz'' ''Other'' ''maturity'' 10 False 1.0
     \<noteq> get_recommendation (PricingEngine_init (constant_regressor 0) 0) ''p'' 10 7
        ''mid'' ''Other'' ''maturity'' 10 False 1.0"
proof -
  have nz: "(10::real) \<noteq> 0" and nz8: "(8::real) \<noteq> 0" by simp_all
  obtain r1 where r1: "get_recommendation (PricingEngine_init (constant_regressor 0) 0)
        ''p'' 10 7 ''xyz'' ''Other'' ''maturity'' 10 False 1.0 = Inr r1"
    and t1: "tier r1 = ''xyz''"
    using rules_only_recommendation [OF nz] by blast
  obtain r2 where r2: "get_recommendation (PricingEngine_init (constant_regressor 0) 0)
        ''p'' 10 7 ''mid'' ''Other'' ''maturity'' 10 False 1.0 = Inr r2"
    and t2: "tier r2 = ''mid''"
    using rules_only_recommendation [OF nz] by blast
  obtain r3 where r3: "get_recommendation (PricingEngine_init (constant_regressor 0) 0)
        ''p'' 8 7.01 ''Low'' ''Other'' ''maturity'' 8 False 1.0 = Inr r3"
    and p3: "recommended_price r3 = py_round
        (calculate_rules_price 8 7.01 ''Low'' ''maturity'' (Some 1.0) 8 False) 2"
    using rules_only_recommendation [OF nz8] by blast
  obtain r4 where r4: "get_recommendation (PricingEngine_init (constant_regressor 0) 0)
        ''p'' 8 7.01 ''mid'' ''Other'' ''maturity'' 8 False 1.0 = Inr r4"
    and p4: "recommended_price r4 = py_round
        (calculate_rules_price 8 7.01 ''mid'' ''maturity'' (Some 1.0) 8 False) 2"
    using rules_only_recommendation [OF nz8] by blast
  have p3': "recommended_price r3 = 8"
    unfolding p3 rules_price_Low by (rule py_round_8)
  have p4': "recommended_price r4 = 8.06"
    unfolding p4 rules_price_8 by (rule py_round_examples)
  have "r1 \<noteq> r2" using t1 t2 by auto
  moreover have "lower ''xyz'' \<notin> {''low'', ''mid'', ''high'', ''premium''}"
    by (simp add: lower_def lower_char_def)
  ultimately show ?thesis unfolding r1 r2 r3 r4 using p3' p4' by simp
qed

text \<open>
  Claim C6, amended. For a tier string whose lower-case form is none of low, mid, high and
  premium, the outcome of \<^verbatim>\<open>get_recommendation\<close> on an engine built by
  \<^verbatim>\<open>PricingEngine\<close> is its outcome for \<^verbatim>\<open>"mid"\<close> with the \<^verbatim>\<open>tier\<close> field
  set to the string that was passed; for every base price other than 0 that outcome is a
  record.
\<close>

theorem unknown_tier_as_mid:
  assumes "lower t \<notin> {''low'', ''mid'', ''high'', ''premium''}"
  shows "get_recommendation (PricingEngine_init fitted w) n b c t cat l ca oos d
       = map_sum id (\<lambda>r. r\<lparr>tier := t\<rparr>)
           (get_recommendation (PricingEngine_init fitted w) n b c ''mid'' cat l ca oos d)
     \<and> (b = 0 \<or> (\<exists>r. get_recommendation (PricingEngine_init fitted w) n b c t cat l ca
                          oos d = Inr r))"
proof -
  have eq: "get_recommendation (PricingEngine_init fitted w) n b c t cat l ca oos d
       = map_sum id (\<lambda>r. r\<lparr>tier := t\<rparr>)
           (get_recommendation (PricingEngine_init fitted w) n b c ''mid'' cat l ca oos d)"
    by (simp add: get_recommendation_def PricingEngine_init_def py_div_def Let_def
        unknown_tier_rules_price [OF assms] unknown_tier_predict [OF assms]
        unknown_tier_tags [OF assms] tier_config_get_unknown [OF assms] tier_config_get_mid)
  have "b = 0 \<or> (\<exists>r. get_recommendation (PricingEngine_init fitted w) n b c t cat l ca
                          oos d = Inr r)"
  proof (cases "b = 0")
    case False
    obtain h where "hybrid_price_pre_floor (PricingEngine_init fitted w) b c t cat l ca oos d
        = Inr h"
      using hybrid_price_pre_floor_nonzero [OF False] by blast
    then show ?thesis using get_recommendation_nonzero [OF False] by blast
  qed simp
  with eq show ?thesis by blast
qed

theorem unknown_tier_as_mid_witness:
  "lower ''xyz'' \<notin> {''low'', ''mid'', ''high'', ''premium''}
   \<and> get_recommendation (PricingEngine_init (constant_regressor 0) 0.5) ''p'' 10 7
        ''xyz'' ''Other'' ''maturity'' 10 False 1.0
       = map_sum id (\<lambda>r. r\<lparr>tier := ''xyz''\<rparr>)
           (get_recommendation (PricingEngine_init (constant_regressor 0) 0.5) ''p'' 10 7
              ''mid'' ''Other'' ''maturity'' 10 False 1.0)
   \<and> ((10::real) = 0
        \<or> (\<exists>r. get_recommendation (PricingEngine_init (constant_regressor 0) 0.5) ''p'' 10 7
                  ''xyz'' ''Other'' ''maturity'' 10 False 1.0 = Inr r))"
proof -
  have h: "lower ''xyz'' \<notin> {''low'', ''mid'', ''high'', ''premium''}"
    by (simp add: lower_def lower_char_def)
  show ?thesis
    using h unknown_tier_as_mid [OF h, where fitted = "constant_regressor 0" and w = "0.5"
       and n = "''p''" and b = 10 and c = 7 and cat = "''Other''"
       and l = "''maturity''" and ca = 10 and oos = False and d = "1.0"]
    by blast
qed

end
